theory Spec2Isabelle
  imports Complex_Main
begin

section \<open>Floating-point values\<close>

text \<open>
  The scripts compute with numpy \<open>float64\<close> values. A value is modelled as an exact real
  number or one of the three non-finite values that numpy produces instead of raising:
  dividing by zero and taking the square root of a negative number only issue a warning
  and yield \<open>inf\<close>, \<open>-inf\<close> or \<open>nan\<close>. Rounding is not modelled (finite arithmetic is
  exact) and there is no negative zero: a nonzero number divided by zero takes the sign
  of the numerator.

  The model and \<open>float64\<close> agree up to rounding, so a value that is exactly zero or an
  exact integer here can come out just beside it there: the cosine of 90 degrees is 0
  here and \<open>6.1e-17\<close> in \<open>float64\<close>, the sine of 180 degrees is 0 here and \<open>1.2e-16\<close>
  there, and the floor of a fractional coordinate on a cell face is decided there by the
  rounding. The properties below are stated where that makes no difference: for values
  up to rounding, at the angle 0 (whose sine is 0 in \<open>float64\<close> too), and for points
  that keep a distance from the cell faces.
\<close>

datatype npfloat = Fin real | PInf | NInf | NaN

fun fneg :: "npfloat \<Rightarrow> npfloat" where
  "fneg (Fin x) = Fin (- x)"
| "fneg PInf = NInf"
| "fneg NInf = PInf"
| "fneg NaN = NaN"

fun fadd :: "npfloat \<Rightarrow> npfloat \<Rightarrow> npfloat" where
  "fadd (Fin x) (Fin y) = Fin (x + y)"
| "fadd NaN _ = NaN"
| "fadd _ NaN = NaN"
| "fadd PInf NInf = NaN"
| "fadd NInf PInf = NaN"
| "fadd PInf _ = PInf"
| "fadd _ PInf = PInf"
| "fadd NInf _ = NInf"
| "fadd _ NInf = NInf"

definition fsub :: "npfloat \<Rightarrow> npfloat \<Rightarrow> npfloat" where
  "fsub x y = fadd x (fneg y)"

fun fmul :: "npfloat \<Rightarrow> npfloat \<Rightarrow> npfloat" where
  "fmul (Fin x) (Fin y) = Fin (x * y)"
| "fmul NaN _ = NaN"
| "fmul _ NaN = NaN"
| "fmul (Fin x) PInf = (if x = 0 then NaN else if 0 < x then PInf else NInf)"
| "fmul (Fin x) NInf = (if x = 0 then NaN else if 0 < x then NInf else PInf)"
| "fmul PInf (Fin y) = (if y = 0 then NaN else if 0 < y then PInf else NInf)"
| "fmul NInf (Fin y) = (if y = 0 then NaN else if 0 < y then NInf else PInf)"
| "fmul PInf PInf = PInf"
| "fmul PInf NInf = NInf"
| "fmul NInf PInf = NInf"
| "fmul NInf NInf = PInf"

fun fdiv :: "npfloat \<Rightarrow> npfloat \<Rightarrow> npfloat" where
  "fdiv (Fin x) (Fin y) =
     (if y = 0 then (if x = 0 then NaN else if 0 < x then PInf else NInf)
      else Fin (x / y))"
| "fdiv NaN _ = NaN"
| "fdiv _ NaN = NaN"
| "fdiv (Fin x) PInf = Fin 0"
| "fdiv (Fin x) NInf = Fin 0"
| "fdiv PInf (Fin y) = (if 0 \<le> y then PInf else NInf)"
| "fdiv NInf (Fin y) = (if 0 \<le> y then NInf else PInf)"
| "fdiv PInf PInf = NaN"
| "fdiv PInf NInf = NaN"
| "fdiv NInf PInf = NaN"
| "fdiv NInf NInf = NaN"

text \<open>\<open>x ** 2\<close> on a \<open>float64\<close>.\<close>

definition fpow2 :: "npfloat \<Rightarrow> npfloat" where
  "fpow2 x = fmul x x"

fun fsqrt :: "npfloat \<Rightarrow> npfloat" where
  "fsqrt (Fin x) = (if x < 0 then NaN else Fin (sqrt x))"
| "fsqrt PInf = PInf"
| "fsqrt NInf = NaN"
| "fsqrt NaN = NaN"

fun fcos :: "npfloat \<Rightarrow> npfloat" where
  "fcos (Fin x) = Fin (cos x)"
| "fcos _ = NaN"

fun fsin :: "npfloat \<Rightarrow> npfloat" where
  "fsin (Fin x) = Fin (sin x)"
| "fsin _ = NaN"

fun ffloor :: "npfloat \<Rightarrow> npfloat" where
  "ffloor (Fin x) = Fin (of_int \<lfloor>x\<rfloor>)"
| "ffloor PInf = PInf"
| "ffloor NInf = NInf"
| "ffloor NaN = NaN"

fun is_fin :: "npfloat \<Rightarrow> bool" where
  "is_fin (Fin x) = True"
| "is_fin _ = False"

text \<open>\<open>np.deg2rad\<close> on a list of (finite) angles in degrees.\<close>

definition deg2rad :: "real list \<Rightarrow> npfloat list" where
  "deg2rad angles = map (\<lambda>d. Fin (d * (pi / 180))) angles"

section \<open>Four-component vectors and 4x4 matrices\<close>

text \<open>
  Every array of the scripts has the fixed shape 4 or 4x4 (\<open>np.identity(4)\<close> and what is
  computed from it), so a matrix is four rows of four entries. \<open>mnth M i j\<close> is
  \<open>M[i][j]\<close> (or \<open>M[i, j]\<close>), \<open>mset M i j v\<close> is the assignment \<open>M[i][j] = v\<close>, and
  \<open>flat M\<close> is \<open>list(M.flat)\<close>, the sixteen entries in row-major order.
\<close>

datatype 'a vec4 = Vec4 'a 'a 'a 'a

type_synonym 'a mat4 = "'a vec4 vec4"

fun vnth :: "'a vec4 \<Rightarrow> nat \<Rightarrow> 'a" where
  "vnth (Vec4 a b c d) i = (if i = 0 then a else if i = 1 then b else if i = 2 then c else d)"

definition vtab :: "(nat \<Rightarrow> 'a) \<Rightarrow> 'a vec4" where
  "vtab f = Vec4 (f 0) (f 1) (f 2) (f 3)"

definition mnth :: "'a mat4 \<Rightarrow> nat \<Rightarrow> nat \<Rightarrow> 'a" where
  "mnth M i j = vnth (vnth M i) j"

definition mtab :: "(nat \<Rightarrow> nat \<Rightarrow> 'a) \<Rightarrow> 'a mat4" where
  "mtab f = vtab (\<lambda>i. vtab (f i))"

definition mset :: "'a mat4 \<Rightarrow> nat \<Rightarrow> nat \<Rightarrow> 'a \<Rightarrow> 'a mat4" where
  "mset M i j v = mtab (\<lambda>r c. if r = i \<and> c = j then v else mnth M r c)"

fun vlist :: "'a vec4 \<Rightarrow> 'a list" where
  "vlist (Vec4 a b c d) = [a, b, c, d]"

fun flat :: "'a mat4 \<Rightarrow> 'a list" where
  "flat (Vec4 r0 r1 r2 r3) = vlist r0 @ vlist r1 @ vlist r2 @ vlist r3"

text \<open>\<open>np.identity(4)\<close>.\<close>

definition identity4 :: "npfloat mat4" where
  "identity4 = mtab (\<lambda>i j. if i = j then Fin 1 else Fin 0)"

section \<open>The cell basis\<close>

datatype error = IndexError | ValueError | LinAlgError

text \<open>
  \<open>basis * edges\<close> multiplies a 4x4 array by a Python list elementwise with numpy
  broadcasting: a list of four numbers scales column \<open>j\<close> by \<open>edges[j]\<close>, a list of one
  number scales every entry, and any other length raises \<open>ValueError\<close>.
\<close>

definition broadcast_mul :: "npfloat mat4 \<Rightarrow> real list \<Rightarrow> error + npfloat mat4" where
  "broadcast_mul basis es =
     (if length es = 4 then Inr (mtab (\<lambda>i j. fmul (mnth basis i j) (Fin (es ! j))))
      else if length es = 1 then Inr (mtab (\<lambda>i j. fmul (mnth basis i j) (Fin (es ! 0))))
      else Inl ValueError)"

text \<open>
  \<open>cellbasis(angles, edges)\<close>, the same function in \<open>supercell.py\<close> and \<open>cell_axes.py\<close>.
  Both arguments are Python lists. \<open>angles\<close> is only read; \<open>edges\<close> is mutated by
  \<open>edges.append(1.0)\<close>, so the model returns the list as it is after the call together
  with the outcome. \<open>rad[2]\<close> is the first index taken and raises \<open>IndexError\<close> on fewer
  than three angles, before the append.
\<close>

definition cellbasis :: "real list \<Rightarrow> real list \<Rightarrow> real list \<times> (error + npfloat mat4)" where
  "cellbasis angles edges =
     (if length angles < 3 then (edges, Inl IndexError)
      else
        let rad = deg2rad angles;
            basis = identity4;
            basis = mset basis 0 1 (fcos (rad ! 2));
            basis = mset basis 1 1 (fsin (rad ! 2));
            basis = mset basis 0 2 (fcos (rad ! 1));
            basis = mset basis 1 2
                      (fdiv (fsub (fcos (rad ! 0)) (fmul (mnth basis 0 1) (mnth basis 0 2)))
                            (mnth basis 1 1));
            basis = mset basis 2 2
                      (fsqrt (fsub (fsub (Fin 1) (fpow2 (mnth basis 0 2)))
                                   (fpow2 (mnth basis 1 2))));
            edges' = edges @ [1.0]
        in (edges', broadcast_mul basis edges'))"


section \<open>Matrix arithmetic\<close>

text \<open>
  \<open>*\<close> on \<open>np.matrix\<close> values is the matrix product. A column vector (a 4x1 matrix such as
  \<open>center\<close> and \<open>center_cell\<close>) is a \<open>vec4\<close>. \<open>np.matrix(mat)\<close> turns a table of numbers
  supplied by the host into a matrix of \<open>float64\<close>.
\<close>

definition dot4 :: "(nat \<Rightarrow> npfloat) \<Rightarrow> (nat \<Rightarrow> npfloat) \<Rightarrow> npfloat" where
  "dot4 f g = fadd (fadd (fadd (fmul (f 0) (g 0)) (fmul (f 1) (g 1))) (fmul (f 2) (g 2)))
                   (fmul (f 3) (g 3))"

definition mmul :: "npfloat mat4 \<Rightarrow> npfloat mat4 \<Rightarrow> npfloat mat4" where
  "mmul A B = mtab (\<lambda>i j. dot4 (\<lambda>k. mnth A i k) (\<lambda>k. mnth B k j))"

definition mvec :: "npfloat mat4 \<Rightarrow> npfloat vec4 \<Rightarrow> npfloat vec4" where
  "mvec A v = vtab (\<lambda>i. dot4 (\<lambda>k. mnth A i k) (\<lambda>k. vnth v k))"

definition np_matrix :: "real mat4 \<Rightarrow> npfloat mat4" where
  "np_matrix M = map_vec4 (map_vec4 Fin) M"

section \<open>The host application\<close>

text \<open>
  The scripts run inside PyMOL. What they read from it is a parameter of the model:
  the object list, the symmetry record of an object (\<open>cmd.get_symmetry\<close>: three edges,
  three angles in degrees, the space-group symbol), its bounding box (\<open>cmd.get_extent\<close>),
  the table of symmetry operators of a space group (\<open>xray.sg_sym_to_mat_list\<close>) and the
  colour table. What they do to it is a log of the commands issued, in order.
\<close>

record cell_sym =
  cell_a :: real
  cell_b :: real
  cell_c :: real
  cell_alpha :: real
  cell_beta :: real
  cell_gamma :: real
  spacegroup :: string

record host =
  get_object_list :: "string list"
  get_symmetry :: "string \<Rightarrow> cell_sym"
  get_extent :: "string \<Rightarrow> (real \<times> real \<times> real) \<times> (real \<times> real \<times> real)"
  sg_sym_to_mat_list :: "string \<Rightarrow> real mat4 list"
  get_color_tuple :: "string \<Rightarrow> real list"

datatype cgo = BEGIN | LINES | COLOR | VERTEX | END | Num npfloat

datatype host_cmd =
    Create string string
  | TransformObject string "npfloat list" int
  | Color int string
  | Delete string
  | LoadCgo "cgo list" string

text \<open>The \<open>%d\<close> conversion of string formatting.\<close>

fun str_nat :: "nat \<Rightarrow> string" where
  "str_nat n = (if n < 10 then [''0123456789'' ! n]
                else str_nat (n div 10) @ [''0123456789'' ! (n mod 10)])"

declare str_nat.simps [simp del]


text \<open>\<open>if object is None: object = cmd.get_object_list()[0]\<close>.\<close>

definition resolve_object :: "host \<Rightarrow> string option \<Rightarrow> error + string" where
  "resolve_object h object =
     (case object of
        Some ob \<Rightarrow> Inr ob
      | None \<Rightarrow> (case get_object_list h of [] \<Rightarrow> Inl IndexError | ob # _ \<Rightarrow> Inr ob))"

section \<open>Symmetry mates of one cell\<close>

text \<open>
  Lines 154 to 157 of \<open>supercell.py\<close>: the operator of the table becomes a matrix, the
  floor of the image of the fractional centre is subtracted from the first three entries
  of its last column, and the requested cell offset is added there.
\<close>

definition adjust_op :: "real mat4 \<Rightarrow> npfloat vec4 \<Rightarrow> npfloat list \<Rightarrow> npfloat mat4" where
  "adjust_op mat center_cell extra_shift =
     (let mat = np_matrix mat;
          shift = map_vec4 ffloor (mvec mat center_cell);
          mat = mtab (\<lambda>i j. if i < 3 \<and> j = 3 then fsub (mnth mat i 3) (vnth shift i)
                             else mnth mat i j);
          mat = mtab (\<lambda>i j. if i < 3 \<and> j = 3 then fadd (mnth mat i 3) (extra_shift ! i)
                             else mnth mat i j)
      in mat)"

text \<open>Line 159: \<open>mat = basis * mat * basis.I\<close>.\<close>

definition to_model :: "npfloat mat4 \<Rightarrow> npfloat mat4 \<Rightarrow> npfloat mat4 \<Rightarrow> npfloat mat4" where
  "to_model basis basis_I mat = mmul (mmul basis mat) basis_I"

text \<open>
  The loop over the operators, with the counter \<open>i\<close> as it is before the iteration.
  Every iteration names a new object \<open>prefix\<close> followed by the counter, creates it as a
  copy of the source object, moves it and colours it.
\<close>

fun mates_loop :: "string \<Rightarrow> string \<Rightarrow> npfloat mat4 \<Rightarrow> npfloat mat4 \<Rightarrow> npfloat vec4 \<Rightarrow>
    npfloat list \<Rightarrow> nat \<Rightarrow> real mat4 list \<Rightarrow> host_cmd list" where
  "mates_loop prefix ob basis basis_I center_cell extra_shift i [] = []"
| "mates_loop prefix ob basis basis_I center_cell extra_shift i (mat # matrices) =
     (let i = i + 1;
          mat = adjust_op mat center_cell extra_shift;
          mat = to_model basis basis_I mat;
          mat_list = flat mat;
          name = prefix @ str_nat i
      in [Create name ob, TransformObject name mat_list 0, Color (int i + 1) name]
         @ mates_loop prefix ob basis basis_I center_cell extra_shift i matrices)"

text \<open>
  \<open>symexpcell(prefix, object, a, b, c)\<close>. The inverse \<open>basis.I\<close> is numpy's and not part
  of the scripts: \<open>matrix_I\<close> stands for it, a function that returns the inverse or raises
  (\<open>LinAlgError\<close> on a singular matrix). It is taken before the loop for \<open>center_cell\<close>
  and again in every iteration, with the same argument and so the same value. Every
  exception possible here is raised before the first command to the host.
\<close>

definition symexpcell :: "(npfloat mat4 \<Rightarrow> error + npfloat mat4) \<Rightarrow> host \<Rightarrow> string \<Rightarrow>
    string option \<Rightarrow> int \<Rightarrow> int \<Rightarrow> int \<Rightarrow> error + host_cmd list" where
  "symexpcell matrix_I h prefix object a b c =
     (case resolve_object h object of
        Inl e \<Rightarrow> Inl e
      | Inr ob \<Rightarrow>
          let sym = get_symmetry h ob;
              cell_edges = [cell_a sym, cell_b sym, cell_c sym];
              cell_angles = [cell_alpha sym, cell_beta sym, cell_gamma sym]
          in case snd (cellbasis cell_angles cell_edges) of
               Inl e \<Rightarrow> Inl e
             | Inr basis \<Rightarrow>
                 (case get_extent h ob of
                    ((x0, y0, z0), (x1, y1, z1)) \<Rightarrow>
                      let center = Vec4 (Fin ((0 + x0 + x1) * 0.5)) (Fin ((0 + y0 + y1) * 0.5))
                                        (Fin ((0 + z0 + z1) * 0.5)) (Fin 1.0)
                      in case matrix_I basis of
                           Inl e \<Rightarrow> Inl e
                         | Inr basis_I \<Rightarrow>
                             let center_cell = mvec basis_I center;
                                 extra_shift = [Fin (of_int a), Fin (of_int b), Fin (of_int c)]
                             in Inr (mates_loop prefix ob basis basis_I center_cell extra_shift 0
                                       (sg_sym_to_mat_list h (spacegroup sym)))))"

section \<open>The supercell\<close>

text \<open>\<open>range(n)\<close> on an integer: empty when \<open>n\<close> is not positive.\<close>

definition py_range :: "int \<Rightarrow> int list" where
  "py_range n = map int [0..<nat n]"

text \<open>Lines 68 to 72: three nested loops appending \<open>[i, j, k]\<close> to \<open>ts\<close>.\<close>

definition enumerate_cells :: "int \<Rightarrow> int \<Rightarrow> int \<Rightarrow> int list list" where
  "enumerate_cells a b c =
     fold (\<lambda>i ts. fold (\<lambda>j ts. fold (\<lambda>k ts. ts @ [[i, j, k]]) (py_range c) ts) (py_range b) ts)
          (py_range a) []"









section \<open>Notions used to state the properties\<close>

text \<open>
  The matrix that lines 16 to 21 of \<open>cellbasis\<close> build before the edges are multiplied
  in, written out entry by entry for angles in radians.
\<close>

definition unit_basis :: "real \<Rightarrow> real \<Rightarrow> real \<Rightarrow> npfloat mat4" where
  "unit_basis al be ga =
     (let y = fdiv (Fin (cos al - cos ga * cos be)) (Fin (sin ga)) in
      Vec4 (Vec4 (Fin 1) (Fin (cos ga)) (Fin (cos be)) (Fin 0))
           (Vec4 (Fin 0) (Fin (sin ga)) y (Fin 0))
           (Vec4 (Fin 0) (Fin 0)
                 (fsqrt (fsub (fsub (Fin 1) (Fin (cos be * cos be))) (fmul y y))) (Fin 0))
           (Vec4 (Fin 0) (Fin 0) (Fin 0) (Fin 1)))"

text \<open>
  The Euclidean norm of column \<open>j\<close> of the upper-left 3x3 block, as \<open>cell_axes\<close> takes it
  with \<open>np.linalg.norm\<close>.
\<close>

definition col_norm :: "npfloat mat4 \<Rightarrow> nat \<Rightarrow> npfloat" where
  "col_norm M j =
     fsqrt (fadd (fadd (fpow2 (mnth M 0 j)) (fpow2 (mnth M 1 j))) (fpow2 (mnth M 2 j)))"



text \<open>
  The identity operator, a pure translation and a diagonal matrix, as tables of numbers.
\<close>

definition rident :: "real mat4" where
  "rident = mtab (\<lambda>i j. if i = j then 1 else 0)"


definition diag4 :: "real \<Rightarrow> real \<Rightarrow> real \<Rightarrow> real \<Rightarrow> real mat4" where
  "diag4 a b c d = Vec4 (Vec4 a 0 0 0) (Vec4 0 b 0 0) (Vec4 0 0 c 0) (Vec4 0 0 0 d)"




definition fin_mat :: "npfloat mat4 \<Rightarrow> bool" where
  "fin_mat A = (\<forall>i<4. \<forall>j<4. is_fin (mnth A i j))"

text \<open>
  The scenario used as a concrete input: an object \<open>obj\<close> with the cell 10, 20, 30 and
  angles of 90 degrees in the space group \<open>P1\<close>, whose table holds the identity operator
  alone; a bounding box given as a parameter; numpy's inverse on the basis of that cell;
  and an operator with a rotation and a fractional translation.
\<close>

definition p1_cell :: cell_sym where
  "p1_cell = \<lparr>cell_a = 10, cell_b = 20, cell_c = 30,
              cell_alpha = 90, cell_beta = 90, cell_gamma = 90, spacegroup = ''P1''\<rparr>"

definition p1_host :: "(real \<times> real \<times> real) \<times> (real \<times> real \<times> real) \<Rightarrow> host" where
  "p1_host extent =
     \<lparr>get_object_list = [''obj''],
      get_symmetry = (\<lambda>ob. p1_cell),
      get_extent = (\<lambda>ob. extent),
      sg_sym_to_mat_list = (\<lambda>sg. if sg = ''P1'' then [rident] else []),
      get_color_tuple = (\<lambda>color. [0, 0, 1])\<rparr>"

definition p1_inverse :: "npfloat mat4 \<Rightarrow> error + npfloat mat4" where
  "p1_inverse B = (if B = np_matrix (diag4 10 20 30 1)
                   then Inr (np_matrix (diag4 (1 / 10) (1 / 20) (1 / 30) 1))
                   else Inl LinAlgError)"


section \<open>Properties of the cell basis\<close>

lemmas mat_simps = mset_def mtab_def vtab_def mnth_def

lemma rad_nth: "k < length angles \<Longrightarrow> deg2rad angles ! k = Fin (angles ! k * (pi / 180))"
  by (simp add: deg2rad_def)

lemma cellbasis_unit_basis:
  assumes "3 \<le> length angles"
  shows "cellbasis angles edges =
           (edges @ [1], broadcast_mul (unit_basis (angles ! 0 * (pi / 180))
                            (angles ! 1 * (pi / 180)) (angles ! 2 * (pi / 180))) (edges @ [1]))"
proof -
  from assms have "0 < length angles" "Suc 0 < length angles" "2 < length angles" by auto
  note r = this[THEN rad_nth]
  from assms show ?thesis
    by (simp add: cellbasis_def r identity4_def mat_simps unit_basis_def fsub_def fpow2_def Let_def
           del: fdiv.simps fsqrt.simps)
qed

lemma cellbasis_eq:
  assumes "3 \<le> length angles"
    and "al = angles ! 0 * (pi / 180)" and "be = angles ! 1 * (pi / 180)"
    and "ga = angles ! 2 * (pi / 180)"
  shows "cellbasis angles edges =
           (edges @ [1], broadcast_mul (unit_basis al be ga) (edges @ [1]))"
  unfolding assms(2-4) by (rule cellbasis_unit_basis[OF assms(1)])

lemma radicand_nonfinite: "\<not> is_fin y \<Longrightarrow> fsqrt (fsub (fsub (Fin 1) (Fin r)) (fmul y y)) = NaN"
  by (cases y) (auto simp: fsub_def)

lemma deg_90: "(90::real) * (pi / 180) = pi / 2"
  by simp

lemma deg_180: "(180::real) * (pi / 180) = pi"
  by simp

text \<open>
  C1. The claim is that \<open>cellbasis\<close> raises a domain error when \<open>sin \<gamma> = 0\<close> and when the
  radicand of the square root is negative. The function has no check of either: numpy
  division and square root do not raise. At \<open>\<gamma> = 0\<close> (angles 90, 90, 0) and at the
  impossible angles 180, 0, 90 (radicand \<open>-1\<close>) it returns a matrix holding \<open>nan\<close>.
\<close>

theorem cellbasis_domain_error_counterexample:
  "sin ((0::real) * (pi / 180)) = 0 \<and>
   snd (cellbasis [90, 90, 0] [10, 10, 10]) =
     Inr (Vec4 (Vec4 (Fin 10) (Fin 10) (Fin 0) (Fin 0))
               (Vec4 (Fin 0) (Fin 0) NaN (Fin 0))
               (Vec4 (Fin 0) (Fin 0) NaN (Fin 0))
               (Vec4 (Fin 0) (Fin 0) (Fin 0) (Fin 1))) \<and>
   1 - (cos ((0::real) * (pi / 180)))\<^sup>2
     - ((cos (180 * (pi / 180)) - cos (90 * (pi / 180)) * cos (0 * (pi / 180)))
          / sin (90 * (pi / 180)))\<^sup>2 < 0 \<and>
   snd (cellbasis [180, 0, 90] [10, 10, 10]) =
     Inr (Vec4 (Vec4 (Fin 10) (Fin 0) (Fin 10) (Fin 0))
               (Vec4 (Fin 0) (Fin 10) (Fin (- 10)) (Fin 0))
               (Vec4 (Fin 0) (Fin 0) NaN (Fin 0))
               (Vec4 (Fin 0) (Fin 0) (Fin 0) (Fin 1)))"
  by (simp add: cellbasis_unit_basis unit_basis_def broadcast_mul_def mat_simps fsub_def
        Let_def deg_90 deg_180)

text \<open>
  C1, amended. For three angles and three edges \<open>cellbasis\<close> never raises: whatever the
  angles, it returns a matrix. At \<open>\<gamma> = 0\<close>, where \<open>sin \<gamma>\<close> is zero and line 20 divides by
  zero (whatever the other two angles), and at the angles 180, 0, 90, where the radicand
  of line 21 is \<open>-1\<close>, the entry \<open>[2][2]\<close> of the returned matrix is \<open>nan\<close>, whatever
  the edges.
\<close>

theorem cellbasis_never_raises:
  assumes "3 \<le> length angles" and "length edges = 3"
  shows "\<exists>m. snd (cellbasis angles edges) = Inr m \<and>
             (angles ! 2 = 0 \<longrightarrow> mnth m 2 2 = NaN) \<and>
             (angles = [180, 0, 90] \<longrightarrow> mnth m 2 2 = NaN)"
proof -
  let ?u = "unit_basis (angles ! 0 * (pi / 180)) (angles ! 1 * (pi / 180))
              (angles ! 2 * (pi / 180))"
  let ?m = "mtab (\<lambda>i j. fmul (mnth ?u i j) (Fin ((edges @ [1]) ! j)))"
  have m: "snd (cellbasis angles edges) = Inr ?m"
    using assms(2) by (simp add: cellbasis_unit_basis[OF assms(1)] broadcast_mul_def)
  have e: "mnth ?m 2 2 = fmul (mnth ?u 2 2) (Fin (edges ! 2))"
    using assms(2) by (simp add: mnth_def mtab_def vtab_def nth_append)
  have zero: "mnth ?u 2 2 = NaN" if "angles ! 2 = 0"
  proof -
    let ?y = "fdiv (Fin (cos (angles ! 0 * (pi / 180)) - cos 0 * cos (angles ! 1 * (pi / 180))))
                   (Fin 0)"
    have "\<not> is_fin ?y" by simp
    then show ?thesis
      using that radicand_nonfinite[of ?y]
      by (simp add: unit_basis_def Let_def mnth_def del: fdiv.simps)
  qed
  have flat: "mnth ?u 2 2 = NaN" if "angles = [180, 0, 90]"
    using that by (simp add: unit_basis_def Let_def mnth_def fsub_def deg_90 deg_180)
  show ?thesis
    using m e zero flat by auto
qed

theorem cellbasis_never_raises_witness:
  "\<exists>m. snd (cellbasis [60, 70, 0] [10, 20, 30]) = Inr m \<and> mnth m 2 2 = NaN"
  using cellbasis_never_raises[of "[60, 70, 0]" "[10, 20, 30]"]
  by simp

text \<open>
  C2. The claim is that \<open>cellbasis\<close> leaves both arguments as they were. It appends \<open>1.0\<close>
  to the list \<open>edges\<close> it is given: after the call on the edges 10, 10, 10 the list has
  four entries.
\<close>

theorem cellbasis_pure_counterexample:
  "fst (cellbasis [90, 90, 90] [10, 10, 10]) = [10, 10, 10, 1] \<and>
   fst (cellbasis [90, 90, 90] [10, 10, 10]) \<noteq> [10, 10, 10]"
  by (simp add: cellbasis_def Let_def)

text \<open>
  C2, amended. \<open>cellbasis\<close> only reads \<open>angles\<close>, and its one effect on \<open>edges\<close> is to
  append \<open>1.0\<close>: with at least three angles the list after the call is the list before
  it followed by \<open>1.0\<close>, whatever the outcome of the call.
\<close>

theorem cellbasis_appends_one:
  "3 \<le> length angles \<Longrightarrow> fst (cellbasis angles edges) = edges @ [1.0]"
  by (simp add: cellbasis_def Let_def)

theorem cellbasis_appends_one_witness:
  "3 \<le> length [90, 90, 90 :: real] \<and> fst (cellbasis [90, 90, 90] [10, 20, 30]) = [10, 20, 30, 1.0]"
  using cellbasis_appends_one[of "[90, 90, 90]" "[10, 20, 30]"] by simp

text \<open>
  C3. For positive edges \<open>a\<close>, \<open>b\<close>, \<open>c\<close>, \<open>sin \<gamma> \<noteq> 0\<close> and a radicand that is not negative,
  \<open>cellbasis\<close> returns a matrix whose first three columns have the Euclidean norms
  \<open>a\<close>, \<open>b\<close> and \<open>c\<close> (exactly, in exact arithmetic).
\<close>

theorem cellbasis_column_norms:
  assumes "3 \<le> length angles" and "edges = [a, b, c]" and "0 < a" and "0 < b" and "0 < c"
    and "al = angles ! 0 * (pi / 180)" and "be = angles ! 1 * (pi / 180)"
    and "ga = angles ! 2 * (pi / 180)"
    and "sin ga \<noteq> 0"
    and "0 \<le> 1 - (cos be)\<^sup>2 - ((cos al - cos ga * cos be) / sin ga)\<^sup>2"
  shows "\<exists>m. snd (cellbasis angles edges) = Inr m \<and>
           col_norm m 0 = Fin a \<and> col_norm m 1 = Fin b \<and> col_norm m 2 = Fin c"
proof -
  define y where "y = (cos al - cos ga * cos be) / sin ga"
  define r where "r = 1 - cos be * cos be - y * y"
  have r0: "0 \<le> r" using assms(10) by (simp add: r_def y_def power2_eq_square)
  have m: "snd (cellbasis angles edges) = Inr (
     Vec4 (Vec4 (Fin a) (Fin (cos ga * b)) (Fin (cos be * c)) (Fin 0))
           (Vec4 (Fin 0) (Fin (sin ga * b)) (Fin (y * c)) (Fin 0))
           (Vec4 (Fin 0) (Fin 0) (Fin (sqrt r * c)) (Fin 0))
           (Vec4 (Fin 0) (Fin 0) (Fin 0) (Fin 1)))"
    using assms(2,9) r0
    by (simp add: cellbasis_eq[OF assms(1,6,7,8)] broadcast_mul_def unit_basis_def mat_simps
          Let_def fsub_def y_def r_def)
  have n0: "sqrt (a * a) = a" using assms(3) by simp
  have e: "sin ga * sin ga + cos ga * cos ga = 1"
    using sin_cos_squared_add[of ga] by (simp add: power2_eq_square)
  have "cos ga * b * (cos ga * b) + sin ga * b * (sin ga * b) = b * b"
    using e by algebra
  then have n1: "sqrt (cos ga * b * (cos ga * b) + sin ga * b * (sin ga * b)) = b"
    using assms(4) by simp
  have "sqrt r * sqrt r = 1 - cos be * cos be - y * y"
    using r0 by (simp add: r_def)
  then have "cos be * c * (cos be * c) + y * c * (y * c) + sqrt r * c * (sqrt r * c) = c * c"
    by algebra
  then have n2: "sqrt (cos be * c * (cos be * c) + y * c * (y * c) + sqrt r * c * (sqrt r * c)) = c"
    using assms(5) by simp
  have nn: "\<not> a * a < 0" "\<not> cos ga * b * (cos ga * b) + sin ga * b * (sin ga * b) < 0"
    "\<not> cos be * c * (cos be * c) + y * c * (y * c) + sqrt r * c * (sqrt r * c) < 0"
    by (simp_all add: not_less)
  show ?thesis
    unfolding m using n0 n1 n2 nn by (simp add: col_norm_def fpow2_def mat_simps)
qed

theorem cellbasis_column_norms_witness:
  "\<exists>m. snd (cellbasis [90, 90, 90] [10, 20, 30]) = Inr m \<and>
       col_norm m 0 = Fin 10 \<and> col_norm m 1 = Fin 20 \<and> col_norm m 2 = Fin 30"
  using cellbasis_column_norms[of "[90, 90, 90]" "[10, 20, 30]" 10 20 30 "90 * (pi / 180)"
      "90 * (pi / 180)" "90 * (pi / 180)"]
  by (simp add: deg_90)

text \<open>
  C4. For the cubic cell with edges 10 and angles of 90 degrees \<open>cellbasis\<close> returns the
  diagonal matrix with the entries 10, 10, 10 and 1.
\<close>

theorem cellbasis_cubic:
  "snd (cellbasis [90, 90, 90] [10, 10, 10]) =
     Inr (Vec4 (Vec4 (Fin 10) (Fin 0) (Fin 0) (Fin 0))
               (Vec4 (Fin 0) (Fin 10) (Fin 0) (Fin 0))
               (Vec4 (Fin 0) (Fin 0) (Fin 10) (Fin 0))
               (Vec4 (Fin 0) (Fin 0) (Fin 0) (Fin 1)))"
  by (simp add: cellbasis_unit_basis unit_basis_def broadcast_mul_def mat_simps fsub_def
        Let_def deg_90)


section \<open>Properties of the cell enumeration\<close>

lemma fold_append_concat:
  "fold (\<lambda>x acc. acc @ f x) xs acc = acc @ concat (map f xs)"
  by (induction xs arbitrary: acc) simp_all

lemma fold_nested_concat:
  "fold (\<lambda>x acc. fold (\<lambda>y acc. acc @ g x y) ys acc) xs acc
     = acc @ concat (map (\<lambda>x. concat (map (g x) ys)) xs)"
  by (induction xs arbitrary: acc) (simp_all add: fold_append_concat)

lemma fold_nested3_concat:
  "fold (\<lambda>x acc. fold (\<lambda>y acc. fold (\<lambda>z acc. acc @ g x y z) zs acc) ys acc) xs acc
     = acc @ concat (map (\<lambda>x. concat (map (\<lambda>y. concat (map (g x y) zs)) ys)) xs)"
  by (induction xs arbitrary: acc) (simp_all add: fold_nested_concat)

lemma concat_singletons: "concat (map (\<lambda>x. [f x]) xs) = map f xs"
  by (induction xs) simp_all

lemma set_py_range: "set (py_range n) = {0..<n}"
  by (auto simp: py_range_def image_int_atLeastLessThan)

lemma enumerate_cells_concat:
  "enumerate_cells a b c =
     concat (map (\<lambda>i. concat (map (\<lambda>j. map (\<lambda>k. [i, j, k]) (py_range c)) (py_range b)))
                 (py_range a))"
proof -
  have "enumerate_cells a b c =
     concat (map (\<lambda>i. concat (map (\<lambda>j. concat (map (\<lambda>k. [[i, j, k]]) (py_range c)))
                                    (py_range b))) (py_range a))"
    unfolding enumerate_cells_def
    using fold_nested3_concat[of "\<lambda>i j k. [[i, j, k]]" "py_range c" "py_range b" "py_range a" "[]"]
    by simp
  then show ?thesis by (simp add: concat_singletons)
qed

lemma length_concat_blocks:
  "(\<And>i. i < n \<Longrightarrow> length (f i) = m) \<Longrightarrow> length (concat (map f [0..<n])) = n * m"
  by (induction n) simp_all

lemma nth_concat_blocks:
  assumes "\<And>i. i < n \<Longrightarrow> length (f i) = m" and "i < n" and "j < m"
  shows "concat (map f [0..<n]) ! (i * m + j) = f i ! j"
  using assms
proof (induction n)
  case 0
  then show ?case by simp
next
  case (Suc n)
  have len: "length (concat (map f [0..<n])) = n * m"
    using Suc.prems(1) by (intro length_concat_blocks) simp
  show ?case
  proof (cases "i < n")
    case True
    then have "Suc i \<le> n" by simp
    then have "Suc i * m \<le> n * m" by (rule mult_le_mono1)
    with Suc.prems(3) have "i * m + j < n * m" by simp
    moreover have "concat (map f [0..<n]) ! (i * m + j) = f i ! j"
      using Suc.IH[OF _ True Suc.prems(3)] Suc.prems(1) by simp
    ultimately show ?thesis by (simp add: nth_append len)
  next
    case False
    with Suc.prems(2) have "i = n" by simp
    then show ?thesis by (simp add: nth_append len)
  qed
qed

text \<open>
  C5. For repeat counts that are not negative, the loops of \<open>supercell\<close> list the
  \<open>na * nb * nc\<close> index triples of the Cartesian product, each once, in row-major order:
  the triple \<open>(i, j, k)\<close> stands at position \<open>(i * nb + j) * nc + k\<close>, so the first index
  varies slowest and the last fastest. For the counts 2, 1, 1 the list is
  \<open>[0, 0, 0], [1, 0, 0]\<close>.
\<close>

theorem enumerate_cells_row_major:
  fixes na nb nc :: int
  assumes "0 \<le> na" and "0 \<le> nb" and "0 \<le> nc"
  shows "length (enumerate_cells na nb nc) = nat na * nat nb * nat nc \<and>
         (\<forall>i < nat na. \<forall>j < nat nb. \<forall>k < nat nc.
            enumerate_cells na nb nc ! ((i * nat nb + j) * nat nc + k) = [int i, int j, int k]) \<and>
         set (enumerate_cells na nb nc) =
           {[i, j, k] | i j k. 0 \<le> i \<and> i < na \<and> 0 \<le> j \<and> j < nb \<and> 0 \<le> k \<and> k < nc} \<and>
         enumerate_cells 2 1 1 = [[0, 0, 0], [1, 0, 0]]"
proof (intro conjI)
  let ?inner = "\<lambda>i j. map (\<lambda>k. [int i, int j, int k]) [0..<nat nc]"
  let ?mid = "\<lambda>i. concat (map (?inner i) [0..<nat nb])"
  have E: "enumerate_cells na nb nc = concat (map ?mid [0..<nat na])"
    by (simp add: enumerate_cells_concat py_range_def comp_def)
  have lm: "\<And>i. length (?mid i) = nat nb * nat nc"
    by (rule length_concat_blocks) simp
  show "length (enumerate_cells na nb nc) = nat na * nat nb * nat nc"
    unfolding E using length_concat_blocks[of "nat na" ?mid "nat nb * nat nc"] lm
    by (simp add: mult.assoc)
  show "\<forall>i < nat na. \<forall>j < nat nb. \<forall>k < nat nc.
           enumerate_cells na nb nc ! ((i * nat nb + j) * nat nc + k) = [int i, int j, int k]"
  proof (intro allI impI)
    fix i j k assume i: "i < nat na" and j: "j < nat nb" and k: "k < nat nc"
    have "Suc j \<le> nat nb" using j by simp
    then have "Suc j * nat nc \<le> nat nb * nat nc" by (rule mult_le_mono1)
    with k have jk: "j * nat nc + k < nat nb * nat nc" by simp
    have idx: "(i * nat nb + j) * nat nc + k = i * (nat nb * nat nc) + (j * nat nc + k)"
      by (simp add: algebra_simps)
    have "concat (map ?mid [0..<nat na]) ! (i * (nat nb * nat nc) + (j * nat nc + k))
            = ?mid i ! (j * nat nc + k)"
      using lm i jk by (intro nth_concat_blocks) auto
    then have "enumerate_cells na nb nc ! ((i * nat nb + j) * nat nc + k)
                 = ?mid i ! (j * nat nc + k)"
      unfolding E idx .
    also have "\<dots> = ?inner i j ! k"
      using nth_concat_blocks[of "nat nb" "?inner i" "nat nc" j k] j k by simp
    also have "\<dots> = [int i, int j, int k]" using k by simp
    finally show "enumerate_cells na nb nc ! ((i * nat nb + j) * nat nc + k)
                    = [int i, int j, int k]" .
  qed
  show "set (enumerate_cells na nb nc) =
           {[i, j, k] | i j k. 0 \<le> i \<and> i < na \<and> 0 \<le> j \<and> j < nb \<and> 0 \<le> k \<and> k < nc}"
    by (fastforce simp: enumerate_cells_concat set_py_range image_iff)
  show "enumerate_cells 2 1 1 = [[0, 0, 0], [1, 0, 0]]"
    by code_simp
qed

theorem enumerate_cells_row_major_witness:
  "length (enumerate_cells 2 3 2) = 12 \<and> enumerate_cells 2 3 2 ! 7 = [1, 0, 1] \<and>
   [1, 2, 1] \<in> set (enumerate_cells 2 3 2)"
proof -
  note t = enumerate_cells_row_major[of 2 3 2]
  have h: "(0::int) \<le> 2" "(0::int) \<le> 3" by simp_all
  from t[OF h(1) h(2) h(1)] have len: "length (enumerate_cells 2 3 2) = nat 2 * nat 3 * nat 2"
    and nth: "\<forall>i < nat 2. \<forall>j < nat 3. \<forall>k < nat 2.
            enumerate_cells 2 3 2 ! ((i * nat 3 + j) * nat 2 + k) = [int i, int j, int k]"
    and st: "set (enumerate_cells 2 3 2) =
           {[i, j, k] | i j k. 0 \<le> i \<and> i < 2 \<and> 0 \<le> j \<and> j < 3 \<and> 0 \<le> k \<and> k < 2}"
    by blast+
  from nth[rule_format, of 1 0 1]
  have "enumerate_cells 2 3 2 ! ((1 * nat 3 + 0) * nat 2 + 1) = [int 1, int 0, int 1]"
    by simp
  then have "enumerate_cells 2 3 2 ! 7 = [1, 0, 1]" by simp
  moreover have "[1, 2, 1] \<in> set (enumerate_cells 2 3 2)" unfolding st by simp
  ultimately show ?thesis using len by simp
qed

section \<open>Exact matrix arithmetic\<close>







lemma vnth_map: "vnth (map_vec4 f v) i = f (vnth v i)"
  by (cases v) simp

lemma mnth_np_matrix: "mnth (np_matrix M) i j = Fin (mnth M i j)"
  by (simp add: np_matrix_def mnth_def vnth_map)














lemma fin_mat_np_matrix: "fin_mat (np_matrix M)"
  by (simp add: fin_mat_def mnth_np_matrix)




section \<open>Properties of the symmetry mates\<close>




text \<open>
  When the object is found, the basis is built and its inverse is returned, \<open>symexpcell\<close>
  issues what the loop over the operators of the space group issues.
\<close>

lemma symexpcell_unfold:
  assumes "resolve_object h object = Inr ob"
    and "cs = get_symmetry h ob"
    and "snd (cellbasis [cell_alpha cs, cell_beta cs, cell_gamma cs]
                        [cell_a cs, cell_b cs, cell_c cs]) = Inr basis"
    and "get_extent h ob = ((x0, y0, z0), (x1, y1, z1))"
    and "matrix_I basis = Inr basis_I"
  shows "symexpcell matrix_I h prefix object a b c =
           Inr (mates_loop prefix ob basis basis_I
                  (mvec basis_I (Vec4 (Fin ((x0 + x1) * 0.5)) (Fin ((y0 + y1) * 0.5))
                                      (Fin ((z0 + z1) * 0.5)) (Fin 1)))
                  [Fin (of_int a), Fin (of_int b), Fin (of_int c)] 0
                  (sg_sym_to_mat_list h (spacegroup cs)))"
  using assms(1,3,4,5) unfolding assms(2)
  by (simp add: symexpcell_def Let_def)





text \<open>
  C8. If the table of the space group holds no operator, \<open>symexpcell\<close> returns normally
  and has issued no command to the host: no object is created. (The object is found and
  numpy returns the inverse of the basis; both happen before the table is read.)
\<close>

theorem symexpcell_no_operators:
  assumes "resolve_object h object = Inr ob"
    and "cs = get_symmetry h ob"
    and "snd (cellbasis [cell_alpha cs, cell_beta cs, cell_gamma cs]
                        [cell_a cs, cell_b cs, cell_c cs]) = Inr basis"
    and "matrix_I basis = Inr basis_I"
    and "sg_sym_to_mat_list h (spacegroup cs) = []"
  shows "symexpcell matrix_I h prefix object a b c = Inr []"
proof -
  obtain x0 y0 z0 x1 y1 z1 where "get_extent h ob = ((x0, y0, z0), (x1, y1, z1))"
    by (metis prod_cases3)
  from symexpcell_unfold[where matrix_I = matrix_I, OF assms(1-3) this assms(4)]
  show ?thesis by (simp add: assms(5))
qed

lemma p1_basis:
  "snd (cellbasis [90, 90, 90] [10, 20, 30]) = Inr (np_matrix (diag4 10 20 30 1))"
  by (simp add: cellbasis_unit_basis unit_basis_def broadcast_mul_def mat_simps fsub_def
        Let_def deg_90 np_matrix_def diag4_def)


theorem symexpcell_no_operators_witness:
  "symexpcell p1_inverse
     ((p1_host ((0, 0, 0), (10, 10, 10)))\<lparr>sg_sym_to_mat_list := (\<lambda>sg. [])\<rparr>)
     ''mate'' None 0 0 0 = Inr []"
proof -
  let ?h = "(p1_host ((0, 0, 0), (10, 10, 10)))\<lparr>sg_sym_to_mat_list := (\<lambda>sg. [])\<rparr>"
  have 1: "resolve_object ?h None = Inr ''obj''"
    by (simp add: resolve_object_def p1_host_def)
  have 2: "p1_cell = get_symmetry ?h ''obj''" by (simp add: p1_host_def)
  have 3: "snd (cellbasis [cell_alpha p1_cell, cell_beta p1_cell, cell_gamma p1_cell]
                        [cell_a p1_cell, cell_b p1_cell, cell_c p1_cell])
              = Inr (np_matrix (diag4 10 20 30 1))"
    using p1_basis by (simp add: p1_cell_def)
  have 4: "p1_inverse (np_matrix (diag4 10 20 30 1))
             = Inr (np_matrix (diag4 (1 / 10) (1 / 20) (1 / 30) 1))"
    by (simp add: p1_inverse_def)
  have 5: "sg_sym_to_mat_list ?h (spacegroup p1_cell) = []" by simp
  show ?thesis
    by (rule symexpcell_no_operators[where matrix_I = p1_inverse, OF 1 2 3 4 5])
qed

section \<open>Properties of the supercell\<close>














end
